theory Spec2Isabelle
  imports Main "HOL-Library.Sublist"
begin

text \<open>
  The protocol dispatcher and the constraint pipeline of the Dynamic Specification Growth
  System: the capsule and its size validation, the capsule generator, the template store
  and the constraint generator, and the dispatch of the three protocol methods on the two
  transports. Each function of the source is a function of the same name here; what the
  program takes from its run-time (files, clock, built-ins) is a field of the record
  \<open>Env\<close>; an exception is the left summand of the result.
\<close>

section \<open>Values of the run-time\<close>

text \<open>
  A JavaScript string is modelled by the list of bytes of its UTF-8 encoding, so that
  the size of a \<^verbatim>\<open>Blob\<close> built from one string is the length of the list.

  A thrown value is either an \<^verbatim>\<open>Error\<close> instance, which carries a message, or
  anything else (the \<^verbatim>\<open>instanceof Error\<close> tests of the source tell the two apart).
\<close>

datatype js_error = Error (message: string) | NonError

section \<open>The task context capsule (core/types/TCC)\<close>

datatype LoadLevel = LOW | MED | HIGH

datatype Environment = DEVELOPMENT | STAGING | PRODUCTION

text \<open>The priorities LOW, MEDIUM, HIGH and CRITICAL; LOW and HIGH are load levels already.\<close>

datatype Priority = PRIORITY_LOW | PRIORITY_MEDIUM | PRIORITY_HIGH | PRIORITY_CRITICAL

record ResourceAvailability =
  cpu :: int
  memory :: int
  network :: int

record SystemState =
  loadLevel :: LoadLevel
  dependencies :: "string list"
  resourceAvailability :: ResourceAvailability
  environment :: Environment

record TaskContext =
  relevantConstraints :: "string list"
  systemState :: SystemState
  creationTime :: string
  source :: string
  priority :: Priority

record TaskContextCapsule =
  taskId :: string
  goal :: string
  taskType :: string
  context_tcc :: TaskContext
  size_tcc :: int
  version :: string

subsection \<open>\<^verbatim>\<open>JSON.stringify\<close> on a capsule\<close>

text \<open>
  The serializer is a built-in of the run-time; it is written out here for the one shape
  the source applies it to whose length matters, a \<^verbatim>\<open>TaskContextCapsule\<close>. Numbers are
  the integer-valued ones, printed in decimal; a string is quoted, with the quote, the
  backslash and the control characters below 0x20 escaped, every other byte copied.
\<close>

definition digit_char :: "nat \<Rightarrow> char" where
  "digit_char d = char_of (48 + d)"

fun decimal :: "nat \<Rightarrow> string" where
  "decimal n = (if n < 10 then [digit_char n] else decimal (n div 10) @ [digit_char (n mod 10)])"

definition json_number :: "int \<Rightarrow> string" where
  "json_number i = (if i < 0 then CHR ''-'' # decimal (nat (- i)) else decimal (nat i))"

definition hex_char :: "nat \<Rightarrow> char" where
  "hex_char d = (if d < 10 then char_of (48 + d) else char_of (87 + d))"

definition json_escape :: "char \<Rightarrow> string" where
  "json_escape c =
     (if c = CHR 0x22 then [CHR 0x5C, CHR 0x22]
      else if c = CHR 0x5C then [CHR 0x5C, CHR 0x5C]
      else if c = CHR 0x08 then [CHR 0x5C, CHR ''b'']
      else if c = CHR 0x09 then [CHR 0x5C, CHR ''t'']
      else if c = CHR 0x0A then [CHR 0x5C, CHR ''n'']
      else if c = CHR 0x0C then [CHR 0x5C, CHR ''f'']
      else if c = CHR 0x0D then [CHR 0x5C, CHR ''r'']
      else if of_char c < (32::nat)
        then [CHR 0x5C, CHR ''u'', CHR ''0'', CHR ''0'',
              hex_char (of_char c div 16), hex_char (of_char c mod 16)]
      else [c])"

definition json_string :: "string \<Rightarrow> string" where
  "json_string s = [CHR 0x22] @ concat (map json_escape s) @ [CHR 0x22]"

fun json_join :: "string list \<Rightarrow> string" where
  "json_join [] = []"
| "json_join [x] = x"
| "json_join (x # y # ys) = x @ '','' @ json_join (y # ys)"

definition json_array :: "string list \<Rightarrow> string" where
  "json_array items = ''['' @ json_join items @ '']''"

definition json_member :: "string \<Rightarrow> string \<Rightarrow> string" where
  "json_member key val = json_string key @ '':'' @ val"

definition json_object :: "(string \<times> string) list \<Rightarrow> string" where
  "json_object members = ''{'' @ json_join (map (\<lambda>(k, v). json_member k v) members) @ ''}''"

fun LoadLevel_text :: "LoadLevel \<Rightarrow> string" where
  "LoadLevel_text LOW = ''LOW''"
| "LoadLevel_text MED = ''MED''"
| "LoadLevel_text HIGH = ''HIGH''"

fun Environment_text :: "Environment \<Rightarrow> string" where
  "Environment_text DEVELOPMENT = ''DEVELOPMENT''"
| "Environment_text STAGING = ''STAGING''"
| "Environment_text PRODUCTION = ''PRODUCTION''"

fun Priority_text :: "Priority \<Rightarrow> string" where
  "Priority_text PRIORITY_LOW = ''LOW''"
| "Priority_text PRIORITY_MEDIUM = ''MEDIUM''"
| "Priority_text PRIORITY_HIGH = ''HIGH''"
| "Priority_text PRIORITY_CRITICAL = ''CRITICAL''"

definition stringify_ResourceAvailability :: "ResourceAvailability \<Rightarrow> string" where
  "stringify_ResourceAvailability r =
     json_object [(''cpu'', json_number (cpu r)), (''memory'', json_number (memory r)),
                  (''network'', json_number (network r))]"

definition stringify_SystemState :: "SystemState \<Rightarrow> string" where
  "stringify_SystemState s =
     json_object [(''loadLevel'', json_string (LoadLevel_text (loadLevel s))),
                  (''dependencies'', json_array (map json_string (dependencies s))),
                  (''resourceAvailability'', stringify_ResourceAvailability (resourceAvailability s)),
                  (''environment'', json_string (Environment_text (environment s)))]"

definition stringify_TaskContext :: "TaskContext \<Rightarrow> string" where
  "stringify_TaskContext c =
     json_object [(''relevantConstraints'', json_array (map json_string (relevantConstraints c))),
                  (''systemState'', stringify_SystemState (systemState c)),
                  (''creationTime'', json_string (creationTime c)),
                  (''source'', json_string (source c)),
                  (''priority'', json_string (Priority_text (priority c)))]"

definition JSON_stringify :: "TaskContextCapsule \<Rightarrow> string" where
  "JSON_stringify tcc =
     json_object [(''taskId'', json_string (taskId tcc)),
                  (''goal'', json_string (goal tcc)),
                  (''taskType'', json_string (taskType tcc)),
                  (''context'', stringify_TaskContext (context_tcc tcc)),
                  (''size'', json_number (size_tcc tcc)),
                  (''version'', json_string (version tcc))]"

definition Blob_size :: "string \<Rightarrow> nat" where
  "Blob_size s = length s"

subsection \<open>Size validation and construction\<close>

text \<open>
  \<^verbatim>\<open>validateTCCSize\<close> writes the \<^verbatim>\<open>size\<close> property of its argument: the model returns the
  verdict together with the capsule as the call leaves it.
\<close>

definition validateTCCSize :: "TaskContextCapsule \<Rightarrow> bool \<times> TaskContextCapsule" where
  "validateTCCSize tcc =
     (let tccString = JSON_stringify tcc;
          byteSize = Blob_size tccString
      in (byteSize < 10240, tcc\<lparr>size_tcc := int byteSize\<rparr>))"

text \<open>
  \<^verbatim>\<open>createTCC\<close> reads the clock once (\<^verbatim>\<open>new Date().toISOString()\<close>); the reading is the
  parameter \<open>now\<close>. The verdict of the size validation is dropped, as in the source.
\<close>

definition createTCC :: "string \<Rightarrow> string \<Rightarrow> string \<Rightarrow> string \<Rightarrow> TaskContextCapsule" where
  "createTCC now taskId' goal' taskType' =
     (let tcc = \<lparr>taskId = taskId', goal = goal', taskType = taskType',
                 context_tcc = \<lparr>relevantConstraints = [],
                   systemState = \<lparr>loadLevel = MED, dependencies = [],
                     resourceAvailability = \<lparr>cpu = 50, memory = 50, network = 50\<rparr>,
                     environment = DEVELOPMENT\<rparr>,
                   creationTime = now, source = ''user-request'', priority = PRIORITY_MEDIUM\<rparr>,
                 size_tcc = 0, version = ''1.0''\<rparr>
      in snd (validateTCCSize tcc))"

section \<open>Documents and the run-time environment\<close>

text \<open>
  \<^verbatim>\<open>loadSpecification\<close> returns what \<^verbatim>\<open>JSON.parse\<close> gives, typed \<^verbatim>\<open>any\<close>. The source
  reads a loaded document in two ways, and a document is modelled by what the two reads
  find:
  \<^item> as a capsule, when a handler passes it to \<^verbatim>\<open>generateConstraints\<close>: \<open>Inr\<close> the capsule
    or, when the document has not that shape (no \<^verbatim>\<open>context.relevantConstraints\<close> array,
    say), \<open>Inl\<close> the message of the \<^verbatim>\<open>TypeError\<close> that reading its properties raises;
  \<^item> as a specification, by \<^verbatim>\<open>spec?.metadata?.taskConstraints?.[taskType]\<close>: nothing
    (or a falsy value), a list of identifiers, or a truthy value that cannot be spread
    into \<^verbatim>\<open>push(...)\<close>.
\<close>

datatype TaskConstraintsEntry = Absent | Listed "string list" | NotIterable

record Document =
  as_capsule :: "string + TaskContextCapsule"
  taskConstraints :: "string \<Rightarrow> TaskConstraintsEntry"

record SchemaResult =
  valid :: bool
  detail_messages :: "string list"

datatype Category = SECURITY | PERFORMANCE | ARCHITECTURE | OTHER

datatype Severity = WARNING | ERROR

record ConstraintTemplate =
  t_id :: string
  t_name :: string
  t_category :: Category
  t_description :: string
  t_rule :: string
  t_applicableTasks :: "string list"
  t_severity :: Severity

record Constraint =
  c_id :: string
  c_name :: string
  c_category :: Category
  c_description :: string
  c_rule :: string
  c_applicableTasks :: "string list"
  c_severity :: Severity

text \<open>
  What the program takes from outside: the file system, the built-ins and the library it
  calls. \<open>parse_template\<close> is \<^verbatim>\<open>JSON.parse(data) as ConstraintTemplate\<close> followed by the
  read of \<^verbatim>\<open>applicableTasks\<close>; \<open>schema_validate\<close> is the body of the \<^verbatim>\<open>try\<close> of
  \<^verbatim>\<open>validateSpecification\<close> up to the result of \<^verbatim>\<open>jsonSchema.validate\<close>;
  \<open>dynamic_import\<close> gives the exception of \<^verbatim>\<open>await import(name)\<close>, if it raises one;
  \<open>dirname\<close> is \<^verbatim>\<open>__dirname\<close>, where it is defined. \<open>uptime\<close> is \<^verbatim>\<open>process.uptime()\<close> in
  whole seconds.
\<close>

record Env =
  dirname :: "string option"
  cwd :: string
  dynamic_import :: "string \<Rightarrow> js_error option"
  readdir :: "string \<Rightarrow> js_error + string list"
  readFile :: "string \<Rightarrow> js_error + string"
  JSON_parse :: "string \<Rightarrow> js_error + Document"
  parse_template :: "string \<Rightarrow> js_error + ConstraintTemplate"
  schema_validate :: "Document \<Rightarrow> js_error + SchemaResult"
  toUpperCase :: "string \<Rightarrow> string"
  now :: string
  uptime :: nat

section \<open>SpecificationManager\<close>

record ValidationResult =
  isValid :: bool
  errors :: "string list"

definition validateSpecification :: "Env \<Rightarrow> Document \<Rightarrow> ValidationResult" where
  "validateSpecification env spec =
     (case schema_validate env spec of
        Inr result \<Rightarrow>
          (if valid result then \<lparr>isValid = True, errors = []\<rparr>
           else \<lparr>isValid = False, errors = detail_messages result\<rparr>)
      | Inl (Error m) \<Rightarrow>
          \<lparr>isValid = False, errors = [''Schema validation failed: '' @ m]\<rparr>
      | Inl NonError \<Rightarrow>
          \<lparr>isValid = False, errors = [''Schema validation failed: Unknown error'']\<rparr>)"

fun join :: "string \<Rightarrow> string list \<Rightarrow> string" where
  "join sep [] = []"
| "join sep [x] = x"
| "join sep (x # y # ys) = x @ sep @ join sep (y # ys)"

definition loadSpecification_try :: "Env \<Rightarrow> string \<Rightarrow> js_error + Document" where
  "loadSpecification_try env path =
     (case dynamic_import env ''fs'' of
        Some e \<Rightarrow> Inl e
      | None \<Rightarrow>
          (case readFile env path of
             Inl e \<Rightarrow> Inl e
           | Inr data \<Rightarrow>
               (case JSON_parse env data of
                  Inl e \<Rightarrow> Inl e
                | Inr spec \<Rightarrow>
                    (let isValid' = validateSpecification env spec
                     in if \<not> isValid isValid'
                        then Inl (Error (''Invalid specification: '' @ join '', '' (errors isValid')))
                        else Inr spec))))"

definition loadSpecification :: "Env \<Rightarrow> string \<Rightarrow> js_error + Document" where
  "loadSpecification env path =
     (case loadSpecification_try env path of
        Inr spec \<Rightarrow> Inr spec
      | Inl (Error m) \<Rightarrow>
          Inl (Error (''Failed to load specification from '' @ path @ '': '' @ m))
      | Inl NonError \<Rightarrow>
          Inl (Error (''Failed to load specification from '' @ path @ '': Unknown error'')))"

section \<open>TccGenerator\<close>

text \<open>\<^verbatim>\<open>[...new Set(xs)]\<close>: the elements in the order of their first insertion.\<close>

definition Set_spread :: "string list \<Rightarrow> string list" where
  "Set_spread xs = foldl (\<lambda>s x. if x \<in> set s then s else s @ [x]) [] xs"

definition switch_taskType :: "string \<Rightarrow> string list" where
  "switch_taskType upper =
     (if upper = ''FINANCIAL'' then [''SEC-002'', ''SEC-003'', ''PERF-002'']
      else if upper = ''AUTHENTICATION'' then [''SEC-001'', ''SEC-002'']
      else if upper = ''API'' then [''PERF-001'', ''PERF-002'', ''ARCH-002'']
      else if upper = ''DATABASE'' then [''PERF-001'', ''ARCH-002'']
      else [''SEC-001''])"

text \<open>
  \<^verbatim>\<open>extractRelevantConstraints\<close> assigns \<^verbatim>\<open>tcc.context.relevantConstraints\<close> in the last
  statement of its \<^verbatim>\<open>try\<close>; an exception before it (the load, the spread) leaves the
  capsule as it was, and the \<^verbatim>\<open>catch\<close> only logs.
\<close>

definition extractRelevantConstraints :: "Env \<Rightarrow> TaskContextCapsule \<Rightarrow> TaskContextCapsule" where
  "extractRelevantConstraints env tcc =
     (case loadSpecification env ''src/core/specification/bsl.schema.json'' of
        Inl e \<Rightarrow> tcc
      | Inr spec \<Rightarrow>
          (let relevant = switch_taskType (toUpperCase env (taskType tcc))
           in case taskConstraints spec (taskType tcc) of
                Absent \<Rightarrow>
                  tcc\<lparr>context_tcc := (context_tcc tcc)\<lparr>relevantConstraints := Set_spread relevant\<rparr>\<rparr>
              | Listed extra \<Rightarrow>
                  tcc\<lparr>context_tcc :=
                        (context_tcc tcc)\<lparr>relevantConstraints := Set_spread (relevant @ extra)\<rparr>\<rparr>
              | NotIterable \<Rightarrow> tcc))"

definition generateTCC_try ::
  "Env \<Rightarrow> string \<Rightarrow> string \<Rightarrow> string \<Rightarrow> string \<Rightarrow> Priority \<Rightarrow> js_error + TaskContextCapsule" where
  "generateTCC_try env taskId' goal' taskType' source' priority' =
     (let tcc = createTCC (now env) taskId' goal' taskType';
          tcc = tcc\<lparr>context_tcc := (context_tcc tcc)\<lparr>source := source'\<rparr>\<rparr>;
          tcc = tcc\<lparr>context_tcc := (context_tcc tcc)\<lparr>priority := priority'\<rparr>\<rparr>;
          tcc = extractRelevantConstraints env tcc;
          (ok, tcc) = validateTCCSize tcc
      in if \<not> ok
         then Inl (Error (''TCC size exceeds limit: '' @ json_number (size_tcc tcc) @ '' bytes''))
         else Inr tcc)"

text \<open>The two optional parameters take their defaults when they are not given.\<close>

definition generateTCC ::
  "Env \<Rightarrow> string \<Rightarrow> string \<Rightarrow> string \<Rightarrow> string option \<Rightarrow> Priority option
     \<Rightarrow> js_error + TaskContextCapsule" where
  "generateTCC env taskId' goal' taskType' source' priority' =
     (case generateTCC_try env taskId' goal' taskType'
             (case source' of None \<Rightarrow> ''user-request'' | Some s \<Rightarrow> s)
             (case priority' of None \<Rightarrow> PRIORITY_MEDIUM | Some p \<Rightarrow> p) of
        Inr tcc \<Rightarrow> Inr tcc
      | Inl (Error m) \<Rightarrow> Inl (Error (''Failed to generate TCC: '' @ m))
      | Inl NonError \<Rightarrow> Inl (Error (''Failed to generate TCC: Unknown error'')))"

section \<open>ConstraintGenerator\<close>

definition endsWith :: "string \<Rightarrow> string \<Rightarrow> bool" where
  "endsWith s suffix' =
     (length suffix' \<le> length s \<and> drop (length s - length suffix') s = suffix')"

text \<open>\<^verbatim>\<open>path.join\<close> on segments that need no normalisation.\<close>

definition path_join :: "string list \<Rightarrow> string" where
  "path_join segments = join ''/'' segments"

definition templateDirs :: "Env \<Rightarrow> string list" where
  "templateDirs env =
     (let currentDir = (case dirname env of
                          Some d \<Rightarrow> d
                        | None \<Rightarrow> path_join [cwd env, ''src'', ''core'', ''constraint''])
      in [path_join [currentDir, ''templates'', ''security''],
          path_join [currentDir, ''templates'', ''performance''],
          path_join [currentDir, ''templates'', ''architecture'']])"

definition applies :: "string \<Rightarrow> ConstraintTemplate \<Rightarrow> bool" where
  "applies taskType' template =
     (taskType' \<in> set (t_applicableTasks template) \<or> ''ALL'' \<in> set (t_applicableTasks template))"

text \<open>
  The loop over the files of one directory runs inside the \<^verbatim>\<open>try\<close> of that directory. It
  pushes onto the shared array \<^verbatim>\<open>templates\<close>; the model returns the array as the loop
  leaves it, with the exception that ended the loop, if one did.
\<close>

fun for_files ::
  "Env \<Rightarrow> string \<Rightarrow> string \<Rightarrow> string list \<Rightarrow> ConstraintTemplate list
     \<Rightarrow> js_error option \<times> ConstraintTemplate list" where
  "for_files env taskType' dir [] templates = (None, templates)"
| "for_files env taskType' dir (file # files) templates =
     (if endsWith file ''.json'' then
        (case readFile env (path_join [dir, file]) of
           Inl e \<Rightarrow> (Some e, templates)
         | Inr data \<Rightarrow>
             (case parse_template env data of
                Inl e \<Rightarrow> (Some e, templates)
              | Inr template \<Rightarrow>
                  if applies taskType' template
                  then for_files env taskType' dir files (templates @ [template])
                  else for_files env taskType' dir files templates))
      else for_files env taskType' dir files templates)"

text \<open>The \<^verbatim>\<open>catch\<close> of a directory continues with the next directory.\<close>

fun for_dirs ::
  "Env \<Rightarrow> string \<Rightarrow> string list \<Rightarrow> ConstraintTemplate list \<Rightarrow> ConstraintTemplate list" where
  "for_dirs env taskType' [] templates = templates"
| "for_dirs env taskType' (dir # dirs) templates =
     (case readdir env dir of
        Inl e \<Rightarrow> for_dirs env taskType' dirs templates
      | Inr files \<Rightarrow>
          for_dirs env taskType' dirs (snd (for_files env taskType' dir files templates)))"

definition matchTemplates_try :: "Env \<Rightarrow> string \<Rightarrow> js_error + ConstraintTemplate list" where
  "matchTemplates_try env taskType' =
     (case dynamic_import env ''fs'' of
        Some e \<Rightarrow> Inl e
      | None \<Rightarrow>
          (case dynamic_import env ''path'' of
             Some e \<Rightarrow> Inl e
           | None \<Rightarrow> Inr (for_dirs env taskType' (templateDirs env) [])))"

definition matchTemplates :: "Env \<Rightarrow> string \<Rightarrow> js_error + ConstraintTemplate list" where
  "matchTemplates env taskType' =
     (case matchTemplates_try env taskType' of
        Inr templates \<Rightarrow> Inr templates
      | Inl (Error m) \<Rightarrow> Inl (Error (''Failed to match templates: '' @ m))
      | Inl NonError \<Rightarrow> Inl (Error ''Failed to match templates: Unknown error''))"

definition constraint_of_template :: "ConstraintTemplate \<Rightarrow> Constraint" where
  "constraint_of_template template =
     \<lparr>c_id = t_id template, c_name = t_name template, c_category = t_category template,
      c_description = t_description template, c_rule = t_rule template,
      c_applicableTasks = t_applicableTasks template, c_severity = t_severity template\<rparr>"

definition constraint_of_context :: "TaskContextCapsule \<Rightarrow> string \<Rightarrow> Constraint" where
  "constraint_of_context tcc ident =
     \<lparr>c_id = ident, c_name = ident, c_category = OTHER,
      c_description = ''Constraint from task context'', c_rule = ''context.'' @ ident,
      c_applicableTasks = [taskType tcc], c_severity = WARNING\<rparr>"

definition generateConstraints_try :: "Env \<Rightarrow> TaskContextCapsule \<Rightarrow> js_error + Constraint list" where
  "generateConstraints_try env tcc =
     (case matchTemplates env (taskType tcc) of
        Inl e \<Rightarrow> Inl e
      | Inr templates \<Rightarrow>
          (let constraints = map constraint_of_template templates;
               contextConstraints =
                 map (constraint_of_context tcc) (relevantConstraints (context_tcc tcc))
           in Inr (constraints @ contextConstraints)))"

definition generateConstraints_catch :: "js_error \<Rightarrow> js_error" where
  "generateConstraints_catch e =
     (case e of
        Error m \<Rightarrow> Error (''Failed to generate constraints: '' @ m)
      | NonError \<Rightarrow> Error ''Failed to generate constraints: Unknown error'')"

definition generateConstraints :: "Env \<Rightarrow> TaskContextCapsule \<Rightarrow> js_error + Constraint list" where
  "generateConstraints env tcc =
     (case generateConstraints_try env tcc of
        Inr constraints \<Rightarrow> Inr constraints
      | Inl e \<Rightarrow> Inl (generateConstraints_catch e))"

text \<open>
  The protocol handlers pass a loaded document, typed \<^verbatim>\<open>any\<close>, to \<^verbatim>\<open>generateConstraints\<close>.
  On a document that is not a capsule the body of its \<^verbatim>\<open>try\<close> raises the \<^verbatim>\<open>TypeError\<close>,
  which its \<^verbatim>\<open>catch\<close> wraps.
\<close>

definition generateConstraints_any :: "Env \<Rightarrow> Document \<Rightarrow> js_error + Constraint list" where
  "generateConstraints_any env doc =
     (case as_capsule doc of
        Inl m \<Rightarrow> Inl (generateConstraints_catch (Error m))
      | Inr tcc \<Rightarrow> generateConstraints env tcc)"

section \<open>The protocol dispatcher (McpAdapter, McpStdioServer)\<close>

datatype request_id = IdNumber int | IdString string

text \<open>
  \<^verbatim>\<open>params\<close> is \<^verbatim>\<open>undefined\<close> when the envelope has none (destructuring it raises a
  \<^verbatim>\<open>TypeError\<close>), or an object in which each of the two paths is there or not.
\<close>

datatype Params = Undefined | Object (tccPath: "string option") (specPath: "string option")

record McpRequest =
  req_method :: string
  req_params :: Params
  req_id :: request_id

text \<open>
  An \<^verbatim>\<open>async\<close> function called without \<^verbatim>\<open>await\<close> never throws into its caller: the call
  evaluates to a promise, which settles to the outcome of the body. A variable of the
  source that is not typed holds a plain value or such a promise.
\<close>

datatype 'a js_value = Plain 'a | Promise "js_error + 'a"

definition async_call :: "js_error + 'a \<Rightarrow> js_error + 'a js_value" where
  "async_call outcome = Inr (Promise outcome)"

text \<open>The \<^verbatim>\<open>length\<close> property: a promise has none.\<close>

fun js_length :: "'a list js_value \<Rightarrow> nat option" where
  "js_length (Plain xs) = Some (length xs)"
| "js_length (Promise p) = None"

datatype ViolationSeverity = V_WARNING | V_ERROR | V_FATAL

record ConstraintViolation =
  v_id :: string
  v_severity :: ViolationSeverity
  v_message :: string
  v_suggestions :: "string list"
  v_timestamp :: string

datatype ResultBody =
    CheckConstraintsResult (constraints: "Constraint list js_value")
      (violations: "ConstraintViolation list") (timestamp: string)
  | SystemStatusResult string string nat string
  | EvolutionStageResult string string "string list" string

record ErrorObject =
  code :: int
  err_message :: string

record McpResponse =
  resp_result :: "ResultBody option"
  resp_error :: "ErrorObject option"
  resp_id :: request_id

definition error_response :: "int \<Rightarrow> string \<Rightarrow> request_id \<Rightarrow> McpResponse" where
  "error_response c m i =
     \<lparr>resp_result = None, resp_error = Some \<lparr>code = c, err_message = m\<rparr>, resp_id = i\<rparr>"

definition result_response :: "ResultBody \<Rightarrow> request_id \<Rightarrow> McpResponse" where
  "result_response r i = \<lparr>resp_result = Some r, resp_error = None, resp_id = i\<rparr>"

text \<open>\<^verbatim>\<open>error instanceof Error ? error.message : fallback\<close>\<close>

definition message_or :: "string \<Rightarrow> js_error \<Rightarrow> string" where
  "message_or fallback e = (case e of Error m \<Rightarrow> m | NonError \<Rightarrow> fallback)"

text \<open>The message of the engine for destructuring \<^verbatim>\<open>undefined\<close>.\<close>

definition destructure_undefined :: js_error where
  "destructure_undefined =
     Error ''Cannot destructure property 'tccPath' of 'request.params' as it is undefined.''"

text \<open>\<^verbatim>\<open>!path\<close>: a path that is absent or the empty string.\<close>

definition truthy :: "string option \<Rightarrow> string option" where
  "truthy p = (case p of None \<Rightarrow> None | Some s \<Rightarrow> if s = [] then None else Some s)"

definition handleCheckConstraints_try :: "Env \<Rightarrow> McpRequest \<Rightarrow> js_error + McpResponse" where
  "handleCheckConstraints_try env request =
     (case req_params request of
        Undefined \<Rightarrow> Inl destructure_undefined
      | Object tccPath' specPath' \<Rightarrow>
          (case (truthy tccPath', truthy specPath') of
             (Some tccPath'', Some specPath'') \<Rightarrow>
               (case loadSpecification env specPath'' of
                  Inl e \<Rightarrow>
                    Inr (error_response (- 32001)
                      (''Failed to load specification: '' @ message_or ''Unknown error'' e)
                      (req_id request))
                | Inr specification \<Rightarrow>
                    (case loadSpecification env tccPath'' of
                       Inl e \<Rightarrow>
                         Inr (error_response (- 32002)
                           (''Failed to load task context capsule: '' @ message_or ''Unknown error'' e)
                           (req_id request))
                     | Inr tcc \<Rightarrow>
                         (case async_call (generateConstraints_any env tcc) of
                            Inl e \<Rightarrow>
                              Inr (error_response (- 32003)
                                (''Failed to generate constraints: '' @ message_or ''Unknown error'' e)
                                (req_id request))
                          | Inr constraints' \<Rightarrow>
                              Inr (result_response
                                (CheckConstraintsResult constraints' [] (now env))
                                (req_id request)))))
           | _ \<Rightarrow>
               Inr (error_response (- 32602)
                 ''Missing required parameters: tccPath and specPath'' (req_id request))))"

definition handleCheckConstraints :: "Env \<Rightarrow> McpRequest \<Rightarrow> js_error + McpResponse" where
  "handleCheckConstraints env request =
     (case handleCheckConstraints_try env request of
        Inr response \<Rightarrow> Inr response
      | Inl e \<Rightarrow> Inr (error_response (- 32603) (message_or ''Internal error'' e) (req_id request)))"

definition handleGetSystemStatus :: "Env \<Rightarrow> McpRequest \<Rightarrow> js_error + McpResponse" where
  "handleGetSystemStatus env request =
     Inr (result_response (SystemStatusResult ''running'' ''1.0.0'' (uptime env) (now env))
            (req_id request))"

definition handleGetEvolutionStage :: "Env \<Rightarrow> McpRequest \<Rightarrow> js_error + McpResponse" where
  "handleGetEvolutionStage env request =
     Inr (result_response
            (EvolutionStageResult ''MVP''
               ''Minimum Viable Product - Core functionality implemented''
               [''Basic constraint generation'', ''Task Context Capsule support'',
                ''MCP integration'', ''CLI interface'']
               (now env))
            (req_id request))"

text \<open>
  The handlers are \<^verbatim>\<open>async\<close> functions that their caller awaits: the outcome of a call is
  the response or the exception. \<open>dispatch\<close> is the \<^verbatim>\<open>switch\<close> of \<^verbatim>\<open>handleMcpRequest\<close>, the
  same text in both files.
\<close>

definition dispatch :: "Env \<Rightarrow> McpRequest \<Rightarrow> js_error + McpResponse" where
  "dispatch env request =
     (if req_method request = ''checkConstraints'' then handleCheckConstraints env request
      else if req_method request = ''getSystemStatus'' then handleGetSystemStatus env request
      else if req_method request = ''getEvolutionStage'' then handleGetEvolutionStage env request
      else Inr (error_response (- 32601) ''Method not found'' (req_id request)))"

text \<open>\<^verbatim>\<open>handleMcpRequest\<close> of McpAdapter.ts returns the response envelope.\<close>

definition handleMcpRequest :: "Env \<Rightarrow> McpRequest \<Rightarrow> McpResponse" where
  "handleMcpRequest env request =
     (case dispatch env request of
        Inr response \<Rightarrow> response
      | Inl e \<Rightarrow> error_response (- 32603) (message_or ''Internal error'' e) (req_id request))"

text \<open>
  \<^verbatim>\<open>handleMcpRequest\<close> of McpStdioServer.ts has the same \<^verbatim>\<open>switch\<close> and the same three
  handlers, and writes the envelope to the standard output as one line. The output is
  modelled by the list of the envelopes written.
\<close>

definition stdio_handleMcpRequest :: "Env \<Rightarrow> McpRequest \<Rightarrow> McpResponse list \<Rightarrow> McpResponse list" where
  "stdio_handleMcpRequest env request stdout =
     (case dispatch env request of
        Inr response \<Rightarrow> stdout @ [response]
      | Inl e \<Rightarrow>
          stdout @ [error_response (- 32603) (message_or ''Internal error'' e) (req_id request)])"

section \<open>The template store as the specification describes it\<close>


definition stored_template :: "Env \<Rightarrow> string \<Rightarrow> string \<Rightarrow> ConstraintTemplate option" where
  "stored_template env dir file =
     (case readFile env (path_join [dir, file]) of
        Inl e \<Rightarrow> None
      | Inr data \<Rightarrow> (case parse_template env data of Inl e \<Rightarrow> None | Inr t \<Rightarrow> Some t))"




section \<open>A sample installation\<close>

text \<open>
  A small installation on which the definitions are evaluated: two readable template
  partitions and a missing one, a capsule document, a specification document, and
  \<^verbatim>\<open>toUpperCase\<close> on the ASCII letters.
\<close>

definition ascii_toUpperCase :: "string \<Rightarrow> string" where
  "ascii_toUpperCase s =
     map (\<lambda>c. if (97::nat) \<le> of_char c \<and> of_char c \<le> (122::nat)
              then char_of (of_char c - (32::nat)) else c) s"

definition sec001 :: ConstraintTemplate where
  "sec001 = \<lparr>t_id = ''SEC-001'', t_name = ''Input validation'', t_category = SECURITY,
     t_description = ''All input is validated'', t_rule = ''validate(input)'',
     t_applicableTasks = [''ALL''], t_severity = ERROR\<rparr>"

definition sec002 :: ConstraintTemplate where
  "sec002 = \<lparr>t_id = ''SEC-002'', t_name = ''Encryption'', t_category = SECURITY,
     t_description = ''Data is encrypted at rest'', t_rule = ''encrypt(data)'',
     t_applicableTasks = [''FINANCIAL'', ''AUTHENTICATION''], t_severity = ERROR\<rparr>"

definition arch002 :: ConstraintTemplate where
  "arch002 = \<lparr>t_id = ''ARCH-002'', t_name = ''Layering'', t_category = ARCHITECTURE,
     t_description = ''No call across layers'', t_rule = ''layered(calls)'',
     t_applicableTasks = [''API'', ''DATABASE''], t_severity = WARNING\<rparr>"

definition arch_sec001 :: ConstraintTemplate where
  "arch_sec001 = \<lparr>t_id = ''SEC-001'', t_name = ''Validation at the boundary'',
     t_category = ARCHITECTURE, t_description = ''Input is validated at the boundary'',
     t_rule = ''boundary(validate)'', t_applicableTasks = [''API''], t_severity = WARNING\<rparr>"

definition sample_capsule :: TaskContextCapsule where
  "sample_capsule =
     \<lparr>taskId = ''T001'', goal = ''ProcessPayment'', taskType = ''financial'',
      context_tcc = \<lparr>relevantConstraints = [''InputValidation@PaymentService''],
        systemState = \<lparr>loadLevel = MED, dependencies = [],
          resourceAvailability = \<lparr>cpu = 50, memory = 50, network = 50\<rparr>,
          environment = DEVELOPMENT\<rparr>,
        creationTime = ''2025-01-01T00:00:00.000Z'', source = ''user-request'',
        priority = PRIORITY_MEDIUM\<rparr>,
      size_tcc = 0, version = ''1.0''\<rparr>"

definition capsule_document :: Document where
  "capsule_document = \<lparr>as_capsule = Inr sample_capsule, taskConstraints = (\<lambda>t. Absent)\<rparr>"

definition specification_document :: Document where
  "specification_document =
     \<lparr>as_capsule = Inl ''Cannot read properties of undefined (reading 'relevantConstraints')'',
      taskConstraints = (\<lambda>t. Absent)\<rparr>"

definition sample_directories :: "(string \<times> string list) list" where
  "sample_directories =
     [(''/app/templates/security'', [''sec-001.json'', ''README.md'', ''sec-002.json'']),
      (''/app/templates/architecture'', [''arch-002.json'', ''sec-001.json''])]"

definition sample_files :: "(string \<times> string) list" where
  "sample_files =
     [(''/app/templates/security/sec-001.json'', ''{sec001}''),
      (''/app/templates/security/sec-002.json'', ''{sec002}''),
      (''/app/templates/architecture/arch-002.json'', ''{arch002}''),
      (''/app/templates/architecture/sec-001.json'', ''{arch_sec001}''),
      (''t.json'', ''{capsule}''),
      (''s.json'', ''{specification}''),
      (''src/core/specification/bsl.schema.json'', ''{specification}'')]"

definition sample_env :: Env where
  "sample_env =
     \<lparr>dirname = Some ''/app'', cwd = ''/srv'', dynamic_import = (\<lambda>name. None),
      readdir = (\<lambda>dir. case map_of sample_directories dir of
                   None \<Rightarrow> Inl (Error (''ENOENT: no such file or directory, scandir '' @ dir))
                 | Some files \<Rightarrow> Inr files),
      readFile = (\<lambda>path. case map_of sample_files path of
                   None \<Rightarrow> Inl (Error (''ENOENT: no such file or directory, open '' @ path))
                 | Some data \<Rightarrow> Inr data),
      JSON_parse = (\<lambda>data. if data = ''{capsule}'' then Inr capsule_document
                   else if data = ''{specification}'' then Inr specification_document
                   else Inl (Error ''Unexpected token'')),
      parse_template = (\<lambda>data. case map_of [(''{sec001}'', sec001), (''{sec002}'', sec002),
                          (''{arch002}'', arch002), (''{arch_sec001}'', arch_sec001)] data of
                   None \<Rightarrow> Inl (Error ''Unexpected token'')
                 | Some t \<Rightarrow> Inr t),
      schema_validate = (\<lambda>doc. Inr \<lparr>valid = True, detail_messages = []\<rparr>),
      toUpperCase = ascii_toUpperCase,
      now = ''2025-06-01T12:00:00.000Z'', uptime = 42\<rparr>"

text \<open>The same installation without any file.\<close>

definition empty_env :: Env where
  "empty_env =
     sample_env\<lparr>readdir := (\<lambda>dir. Inl (Error (''ENOENT: no such file or directory, scandir '' @ dir))),
                readFile := (\<lambda>path. Inl (Error (''ENOENT: no such file or directory, open '' @ path)))\<rparr>"

definition checkConstraints_request :: "Params \<Rightarrow> request_id \<Rightarrow> McpRequest" where
  "checkConstraints_request ps i = \<lparr>req_method = ''checkConstraints'', req_params = ps, req_id = i\<rparr>"

text \<open>
  A specification whose \<^verbatim>\<open>metadata.taskConstraints\<close> lists two identifiers under \<^verbatim>\<open>misc\<close>,
  and under \<^verbatim>\<open>constructor\<close> holds what every object inherits, a function, which cannot be
  spread.
\<close>

definition table_document :: Document where
  "table_document =
     \<lparr>as_capsule = Inl ''Cannot read properties of undefined (reading 'relevantConstraints')'',
      taskConstraints = (\<lambda>t. if t = ''misc'' then Listed [''AUDIT-001'', ''SEC-001'']
                            else if t = ''constructor'' then NotIterable else Absent)\<rparr>"

definition table_env :: Env where
  "table_env =
     sample_env\<lparr>JSON_parse := (\<lambda>data. if data = ''{specification}'' then Inr table_document
                                  else JSON_parse sample_env data)\<rparr>"




section \<open>Routing\<close>

lemma stdio_writes_response:
  "stdio_handleMcpRequest env request stdout = stdout @ [handleMcpRequest env request]"
  by (simp add: stdio_handleMcpRequest_def handleMcpRequest_def split: sum.splits)

lemma contains_missing_parameters:
  "sublist ''Missing required parameters'' ''Missing required parameters: tccPath and specPath''"
proof -
  have "''Missing required parameters: tccPath and specPath'' =
        ''Missing required parameters'' @ '': tccPath and specPath''"
    by simp
  then show ?thesis
    by (simp only: sublist_append_rightI)
qed

text \<open>
  Claim C6. A request whose method is none of \<^verbatim>\<open>checkConstraints\<close>, \<^verbatim>\<open>getSystemStatus\<close> and
  \<^verbatim>\<open>getEvolutionStage\<close> is answered by the error envelope with code -32601 and the
  identifier of the request: returned by the dispatcher of the connection transport,
  written as the next line by the dispatcher of the stream transport.
\<close>

theorem unknown_method_not_found:
  assumes "req_method request \<notin> {''checkConstraints'', ''getSystemStatus'', ''getEvolutionStage''}"
  shows "handleMcpRequest env request =
           \<lparr>resp_result = None,
            resp_error = Some \<lparr>code = - 32601, err_message = ''Method not found''\<rparr>,
            resp_id = req_id request\<rparr>
       \<and> stdio_handleMcpRequest env request stdout =
           stdout @ [\<lparr>resp_result = None,
                     resp_error = Some \<lparr>code = - 32601, err_message = ''Method not found''\<rparr>,
                     resp_id = req_id request\<rparr>]"
proof -
  from assms have "dispatch env request =
      Inr (error_response (- 32601) ''Method not found'' (req_id request))"
    by (simp add: dispatch_def)
  then show ?thesis
    by (simp add: handleMcpRequest_def stdio_handleMcpRequest_def error_response_def)
qed

theorem unknown_method_not_found_witness:
  "handleMcpRequest sample_env
     \<lparr>req_method = ''unknownMethod'', req_params = Undefined, req_id = IdNumber 5\<rparr> =
     \<lparr>resp_result = None,
      resp_error = Some \<lparr>code = - 32601, err_message = ''Method not found''\<rparr>,
      resp_id = IdNumber 5\<rparr>
   \<and> stdio_handleMcpRequest sample_env
       \<lparr>req_method = ''unknownMethod'', req_params = Undefined, req_id = IdNumber 5\<rparr> [] =
       [\<lparr>resp_result = None,
         resp_error = Some \<lparr>code = - 32601, err_message = ''Method not found''\<rparr>,
         resp_id = IdNumber 5\<rparr>]"
  using unknown_method_not_found
    [where request = "\<lparr>req_method = ''unknownMethod'', req_params = Undefined,
                       req_id = IdNumber 5\<rparr>"
       and env = sample_env and stdout = "[]"]
  by simp

section \<open>Parameters of \<^verbatim>\<open>checkConstraints\<close>\<close>

lemma missing_path_response:
  assumes "req_params request = Object tccPath' specPath'"
    and "truthy tccPath' = None \<or> truthy specPath' = None"
  shows "handleCheckConstraints env request =
           Inr (error_response (- 32602) ''Missing required parameters: tccPath and specPath''
                  (req_id request))"
  using assms
  by (auto simp: handleCheckConstraints_def handleCheckConstraints_try_def split: option.splits)

text \<open>
  Claim C7. A \<^verbatim>\<open>checkConstraints\<close> request whose params object lacks \<^verbatim>\<open>specPath\<close> or lacks
  \<^verbatim>\<open>tccPath\<close> is answered by an error envelope with code -32602, a message that contains
  the text "Missing required parameters", and the identifier of the request, on both
  transports.
\<close>

theorem missing_parameter_rejected:
  assumes "req_method request = ''checkConstraints''"
    and "req_params request = Object tccPath' specPath'"
    and "tccPath' = None \<or> specPath' = None"
  shows "resp_result (handleMcpRequest env request) = None
       \<and> map_option code (resp_error (handleMcpRequest env request)) = Some (- 32602)
       \<and> (\<exists>e. resp_error (handleMcpRequest env request) = Some e
              \<and> sublist ''Missing required parameters'' (err_message e))
       \<and> resp_id (handleMcpRequest env request) = req_id request
       \<and> stdio_handleMcpRequest env request stdout = stdout @ [handleMcpRequest env request]"
proof -
  from assms(3) have "truthy tccPath' = None \<or> truthy specPath' = None"
    by (auto simp: truthy_def)
  with assms(2) have "handleCheckConstraints env request =
      Inr (error_response (- 32602) ''Missing required parameters: tccPath and specPath''
             (req_id request))"
    by (rule missing_path_response)
  with assms(1) have "handleMcpRequest env request =
      error_response (- 32602) ''Missing required parameters: tccPath and specPath''
        (req_id request)"
    by (simp add: handleMcpRequest_def dispatch_def)
  then show ?thesis
    using contains_missing_parameters
    by (simp add: error_response_def stdio_writes_response)
qed

theorem missing_parameter_rejected_witness:
  "resp_result (handleMcpRequest sample_env
      (checkConstraints_request (Object (Some ''t.json'') None) (IdNumber 2))) = None
   \<and> map_option code (resp_error (handleMcpRequest sample_env
      (checkConstraints_request (Object (Some ''t.json'') None) (IdNumber 2)))) = Some (- 32602)
   \<and> resp_id (handleMcpRequest sample_env
      (checkConstraints_request (Object (Some ''t.json'') None) (IdNumber 2))) = IdNumber 2"
  using missing_parameter_rejected
    [where request = "checkConstraints_request (Object (Some ''t.json'') None) (IdNumber 2)"
       and tccPath' = "Some ''t.json''" and specPath' = None and env = sample_env]
  by (simp add: checkConstraints_request_def)

text \<open>
  Claim C10. A \<^verbatim>\<open>checkConstraints\<close> request without any params is answered by the error
  envelope with code -32603, not -32602, and the identifier of the request: in the handler
  the destructuring raises before the parameters are checked, and the \<^verbatim>\<open>catch\<close> of the
  handler itself turns the exception into the envelope, which the dispatcher passes on
  unchanged on both transports.
\<close>

theorem absent_params_internal_error:
  assumes "req_method request = ''checkConstraints''"
    and "req_params request = Undefined"
  shows "handleCheckConstraints_try env request = Inl destructure_undefined
       \<and> handleCheckConstraints env request =
           Inr \<lparr>resp_result = None,
                resp_error = Some \<lparr>code = - 32603, err_message = message destructure_undefined\<rparr>,
                resp_id = req_id request\<rparr>
       \<and> handleMcpRequest env request =
           \<lparr>resp_result = None,
            resp_error = Some \<lparr>code = - 32603, err_message = message destructure_undefined\<rparr>,
            resp_id = req_id request\<rparr>
       \<and> map_option code (resp_error (handleMcpRequest env request)) \<noteq> Some (- 32602)
       \<and> stdio_handleMcpRequest env request stdout = stdout @ [handleMcpRequest env request]"
proof -
  from assms(2) have raised: "handleCheckConstraints_try env request = Inl destructure_undefined"
    by (simp add: handleCheckConstraints_try_def)
  then have caught: "handleCheckConstraints env request =
      Inr (error_response (- 32603) (message destructure_undefined) (req_id request))"
    by (simp add: handleCheckConstraints_def message_or_def destructure_undefined_def)
  with assms(1) have "handleMcpRequest env request =
      error_response (- 32603) (message destructure_undefined) (req_id request)"
    by (simp add: handleMcpRequest_def dispatch_def)
  with raised caught show ?thesis
    by (simp add: error_response_def stdio_writes_response)
qed

theorem absent_params_internal_error_witness:
  "handleCheckConstraints_try sample_env (checkConstraints_request Undefined (IdString ''a7'')) =
     Inl destructure_undefined
   \<and> handleCheckConstraints sample_env (checkConstraints_request Undefined (IdString ''a7'')) =
     Inr \<lparr>resp_result = None,
          resp_error = Some \<lparr>code = - 32603, err_message = message destructure_undefined\<rparr>,
          resp_id = IdString ''a7''\<rparr>
   \<and> handleMcpRequest sample_env (checkConstraints_request Undefined (IdString ''a7'')) =
     \<lparr>resp_result = None,
      resp_error = Some \<lparr>code = - 32603, err_message = message destructure_undefined\<rparr>,
      resp_id = IdString ''a7''\<rparr>"
  using absent_params_internal_error
    [where request = "checkConstraints_request Undefined (IdString ''a7'')" and env = sample_env]
  by (simp add: checkConstraints_request_def)

section \<open>Failures of the collaborators of \<^verbatim>\<open>checkConstraints\<close>\<close>

text \<open>
  With both paths given, the handler answers by the outcome of the two loads; the call of
  \<^verbatim>\<open>generateConstraints\<close> is not awaited, so that its outcome, good or bad, travels inside
  the promise stored in the result.
\<close>

lemma handleCheckConstraints_loaded:
  assumes "req_params request = Object (Some tp) (Some sp)" and "tp \<noteq> []" and "sp \<noteq> []"
  shows "handleCheckConstraints env request =
     (case loadSpecification env sp of
        Inl e \<Rightarrow> Inr (error_response (- 32001)
                  (''Failed to load specification: '' @ message_or ''Unknown error'' e)
                  (req_id request))
      | Inr specification \<Rightarrow>
          (case loadSpecification env tp of
             Inl e \<Rightarrow> Inr (error_response (- 32002)
                  (''Failed to load task context capsule: '' @ message_or ''Unknown error'' e)
                  (req_id request))
           | Inr tcc \<Rightarrow> Inr (result_response
                  (CheckConstraintsResult (Promise (generateConstraints_any env tcc)) [] (now env))
                  (req_id request))))"
  using assms
  by (simp add: handleCheckConstraints_def handleCheckConstraints_try_def truthy_def
      async_call_def split: sum.splits)

lemma specification_load_failure:
  assumes "req_method request = ''checkConstraints''"
    and "req_params request = Object (Some tp) (Some sp)" and "tp \<noteq> []" and "sp \<noteq> []"
    and "loadSpecification env sp = Inl (Error cause)"
  shows "handleMcpRequest env request =
           error_response (- 32001) (''Failed to load specification: '' @ cause) (req_id request)"
  using assms(1,5) handleCheckConstraints_loaded [OF assms(2-4), of env]
  by (simp add: handleMcpRequest_def dispatch_def message_or_def)

lemma capsule_load_failure:
  assumes "req_method request = ''checkConstraints''"
    and "req_params request = Object (Some tp) (Some sp)" and "tp \<noteq> []" and "sp \<noteq> []"
    and "loadSpecification env sp = Inr specification"
    and "loadSpecification env tp = Inl (Error cause)"
  shows "handleMcpRequest env request =
           error_response (- 32002) (''Failed to load task context capsule: '' @ cause)
             (req_id request)"
  using assms(1,5,6) handleCheckConstraints_loaded [OF assms(2-4), of env]
  by (simp add: handleMcpRequest_def dispatch_def message_or_def)

lemma handleCheckConstraints_code:
  "handleCheckConstraints env request = Inr response \<Longrightarrow>
     map_option code (resp_error response) \<noteq> Some (- 32003)"
  by (auto simp: handleCheckConstraints_def handleCheckConstraints_try_def async_call_def
      error_response_def result_response_def split: sum.splits Params.splits option.splits prod.splits)

lemma code_32003_never_sent:
  "map_option code (resp_error (handleMcpRequest env request)) \<noteq> Some (- 32003)"
proof (cases "req_method request = ''checkConstraints''")
  case True
  then show ?thesis
    using handleCheckConstraints_code [of env request]
    by (auto simp: handleMcpRequest_def dispatch_def handleCheckConstraints_def split: sum.splits)
next
  case False
  then show ?thesis
    by (simp add: handleMcpRequest_def dispatch_def handleGetSystemStatus_def
        handleGetEvolutionStage_def error_response_def result_response_def)
qed

lemma unawaited_generation:
  assumes "req_method request = ''checkConstraints''"
    and "req_params request = Object (Some tp) (Some sp)" and "tp \<noteq> []" and "sp \<noteq> []"
    and "loadSpecification env sp = Inr specification"
    and "loadSpecification env tp = Inr tcc"
  shows "handleMcpRequest env request =
           result_response
             (CheckConstraintsResult (Promise (generateConstraints_any env tcc)) [] (now env))
             (req_id request)"
  using assms(1,5,6) handleCheckConstraints_loaded [OF assms(2-4), of env]
  by (simp add: handleMcpRequest_def dispatch_def)

lemma constraints_field_is_promise:
  assumes "resp_result (handleMcpRequest env request) = Some (CheckConstraintsResult c v t)"
  shows "\<exists>outcome. c = Promise outcome"
proof (cases "req_method request = ''checkConstraints''")
  case True
  with assms show ?thesis
    by (auto simp: handleMcpRequest_def dispatch_def handleCheckConstraints_def
        handleCheckConstraints_try_def async_call_def error_response_def result_response_def
        split: sum.splits Params.splits option.splits prod.splits)
next
  case False
  with assms show ?thesis
    by (simp add: handleMcpRequest_def dispatch_def handleGetSystemStatus_def
        handleGetEvolutionStage_def error_response_def result_response_def split: if_splits)
qed

lemma sample_loads:
  "loadSpecification sample_env ''s.json'' = Inr specification_document"
  "loadSpecification sample_env ''t.json'' = Inr capsule_document"
  by (simp_all add: loadSpecification_def loadSpecification_try_def sample_env_def
      sample_files_def validateSpecification_def)

text \<open>
  Claim C5. A specification load that fails is answered with code -32001 and a capsule
  load that fails with code -32002, the message wrapping the text of the cause
  (\<open>specification_load_failure\<close>, \<open>capsule_load_failure\<close>). A constraint generation that
  fails is not answered with code -32003, which no request ever receives
  (\<open>code_32003_never_sent\<close>): on the sample installation, a request whose capsule path
  names a document that is not a capsule receives a result envelope that holds the
  rejected promise (\<open>unawaited_generation\<close>).
\<close>

theorem rejected_generation_in_success_envelope:
  "generateConstraints_any sample_env specification_document =
     Inl (Error ''Failed to generate constraints: Cannot read properties of undefined (reading 'relevantConstraints')'')
   \<and> handleMcpRequest sample_env
       (checkConstraints_request (Object (Some ''s.json'') (Some ''s.json'')) (IdNumber 7)) =
     \<lparr>resp_result = Some (CheckConstraintsResult
        (Promise (Inl (Error ''Failed to generate constraints: Cannot read properties of undefined (reading 'relevantConstraints')'')))
        [] ''2025-06-01T12:00:00.000Z''),
      resp_error = None, resp_id = IdNumber 7\<rparr>"
proof -
  let ?request = "checkConstraints_request (Object (Some ''s.json'') (Some ''s.json'')) (IdNumber 7)"
  have rejected: "generateConstraints_any sample_env specification_document =
      Inl (Error ''Failed to generate constraints: Cannot read properties of undefined (reading 'relevantConstraints')'')"
    by (simp add: generateConstraints_any_def generateConstraints_catch_def
        specification_document_def)
  have "handleMcpRequest sample_env ?request =
      result_response
        (CheckConstraintsResult (Promise (generateConstraints_any sample_env specification_document))
           [] (now sample_env))
        (req_id ?request)"
    by (rule unawaited_generation [where tp = "''s.json''" and sp = "''s.json''"])
      (simp_all add: checkConstraints_request_def sample_loads)
  with rejected show ?thesis
    by (simp add: result_response_def checkConstraints_request_def sample_env_def)
qed

text \<open>
  Claim C1. On the sample installation both documents of the request load and the
  generation gives a list of two constraints; the \<^verbatim>\<open>constraints\<close> field of the result is
  the promise of that list, which has no length, beside the empty list of violations, the
  timestamp and the identifier of the request.
\<close>

theorem unawaited_constraints_in_result:
  "generateConstraints_any sample_env capsule_document =
     Inr [constraint_of_template sec001,
          constraint_of_context sample_capsule ''InputValidation@PaymentService'']
   \<and> handleMcpRequest sample_env
       (checkConstraints_request (Object (Some ''t.json'') (Some ''s.json'')) (IdNumber 1)) =
     \<lparr>resp_result = Some (CheckConstraintsResult
        (Promise (Inr [constraint_of_template sec001,
                       constraint_of_context sample_capsule ''InputValidation@PaymentService'']))
        [] ''2025-06-01T12:00:00.000Z''),
      resp_error = None, resp_id = IdNumber 1\<rparr>
   \<and> js_length (Promise (Inr [constraint_of_template sec001,
          constraint_of_context sample_capsule ''InputValidation@PaymentService''])) = None"
proof -
  let ?request = "checkConstraints_request (Object (Some ''t.json'') (Some ''s.json'')) (IdNumber 1)"
  have generated: "generateConstraints_any sample_env capsule_document =
      Inr [constraint_of_template sec001,
           constraint_of_context sample_capsule ''InputValidation@PaymentService'']"
    by code_simp
  have "handleMcpRequest sample_env ?request =
      result_response
        (CheckConstraintsResult (Promise (generateConstraints_any sample_env capsule_document))
           [] (now sample_env))
        (req_id ?request)"
    by (rule unawaited_generation [where tp = "''t.json''" and sp = "''s.json''"])
      (simp_all add: checkConstraints_request_def sample_loads)
  with generated show ?thesis
    by (simp add: result_response_def checkConstraints_request_def sample_env_def)
qed

section \<open>The size of a capsule\<close>

lemma length_json_escape: "1 \<le> length (json_escape c)"
  by (simp add: json_escape_def)

lemma length_concat_json_escape: "length s \<le> length (concat (map json_escape s))"
proof (induction s)
  case Nil
  then show ?case by simp
next
  case (Cons c s)
  then show ?case
    using length_json_escape [of c] by simp
qed

lemma length_json_string: "length s \<le> length (json_string s)"
  using length_concat_json_escape [of s] by (simp add: json_string_def)

lemma goal_fits: "length (goal tcc) \<le> Blob_size (JSON_stringify tcc)"
  using length_json_string [of "goal tcc"]
  by (simp add: Blob_size_def JSON_stringify_def json_object_def json_member_def)




lemma size_after_validation:
  "int (Blob_size (JSON_stringify (tcc\<lparr>size_tcc := n\<rparr>))) + int (length (json_number (size_tcc tcc))) =
   int (Blob_size (JSON_stringify tcc)) + int (length (json_number n))"
  by (simp add: Blob_size_def JSON_stringify_def json_object_def json_member_def)

text \<open>
  Claim C4, as the code has it. \<^verbatim>\<open>validateTCCSize\<close> stores in \<^verbatim>\<open>size\<close> the byte length of
  the serialized form that the capsule has when the call is made, in which the previous
  size is still written; it changes nothing else, and returns true exactly when that
  length is less than 10240. The stored size is the byte length of the serialized form
  after the call exactly when the new size prints with as many characters as the previous
  one.
\<close>

theorem validateTCCSize_measures_argument:
  "snd (validateTCCSize tcc) = tcc\<lparr>size_tcc := int (Blob_size (JSON_stringify tcc))\<rparr>
   \<and> size_tcc (snd (validateTCCSize tcc)) = int (Blob_size (JSON_stringify tcc))
   \<and> fst (validateTCCSize tcc) = (Blob_size (JSON_stringify tcc) < 10240)
   \<and> (int (Blob_size (JSON_stringify (snd (validateTCCSize tcc)))) = size_tcc (snd (validateTCCSize tcc))
        \<longleftrightarrow> length (json_number (size_tcc (snd (validateTCCSize tcc)))) = length (json_number (size_tcc tcc)))"
proof -
  let ?n = "int (Blob_size (JSON_stringify tcc))"
  have result: "validateTCCSize tcc = (Blob_size (JSON_stringify tcc) < 10240, tcc\<lparr>size_tcc := ?n\<rparr>)"
    by (simp add: validateTCCSize_def Let_def)
  have "int (Blob_size (JSON_stringify (tcc\<lparr>size_tcc := ?n\<rparr>))) = ?n
        \<longleftrightarrow> length (json_number ?n) = length (json_number (size_tcc tcc))"
    using size_after_validation [where tcc = tcc and n = ?n] by linarith
  with result show ?thesis
    by simp
qed

text \<open>
  Claim C4, as it is stated, fails on the sample capsule: its size is 0 before the call
  and 383 after it, and the serialized form after the call has 385 bytes.
\<close>

theorem validateTCCSize_size_not_own_length:
  "size_tcc (snd (validateTCCSize sample_capsule)) = 383
   \<and> Blob_size (JSON_stringify (snd (validateTCCSize sample_capsule))) = 385"
  by code_simp


























text \<open>The failing branch of \<^verbatim>\<open>generateTCC\<close> is taken: a long goal is enough.\<close>

lemma extractRelevantConstraints_goal:
  "goal (extractRelevantConstraints env tcc) = goal tcc"
  by (simp add: extractRelevantConstraints_def Let_def split: sum.splits TaskConstraintsEntry.splits)

lemma generateTCC_rejects_long_goal:
  assumes "10240 \<le> length goal'"
  shows "\<exists>n\<ge>10240. generateTCC env taskId' goal' taskType' source' priority' =
           Inl (Error (''Failed to generate TCC: TCC size exceeds limit: ''
                       @ json_number n @ '' bytes''))"
proof -
  let ?source = "case source' of None \<Rightarrow> ''user-request'' | Some s \<Rightarrow> s"
  let ?priority = "case priority' of None \<Rightarrow> PRIORITY_MEDIUM | Some p \<Rightarrow> p"
  let ?created = "createTCC (now env) taskId' goal' taskType'"
  let ?tcc1 = "?created\<lparr>context_tcc := (context_tcc ?created)\<lparr>source := ?source\<rparr>\<rparr>"
  let ?tcc2 = "?tcc1\<lparr>context_tcc := (context_tcc ?tcc1)\<lparr>priority := ?priority\<rparr>\<rparr>"
  let ?pre = "extractRelevantConstraints env ?tcc2"
  let ?n = "int (Blob_size (JSON_stringify ?pre))"
  have "goal ?pre = goal'"
    by (simp add: extractRelevantConstraints_goal createTCC_def validateTCCSize_def Let_def)
  with goal_fits [of ?pre] assms have large: "10240 \<le> ?n"
    by simp
  then have "generateTCC_try env taskId' goal' taskType' ?source ?priority =
      Inl (Error (''TCC size exceeds limit: '' @ json_number ?n @ '' bytes''))"
    by (simp add: generateTCC_try_def validateTCCSize_def Let_def)
  then have "generateTCC env taskId' goal' taskType' source' priority' =
      Inl (Error (''Failed to generate TCC: TCC size exceeds limit: '' @ json_number ?n @ '' bytes''))"
    by (simp add: generateTCC_def)
  with large show ?thesis
    by blast
qed

section \<open>The relevant constraints of a generated capsule\<close>

lemma extractRelevantConstraints_default:
  assumes "toUpperCase env (taskType tcc) \<notin> {''FINANCIAL'', ''AUTHENTICATION'', ''API'', ''DATABASE''}"
    and "loadSpecification env ''src/core/specification/bsl.schema.json'' = Inr spec"
    and "taskConstraints spec (taskType tcc) = Absent"
  shows "relevantConstraints (context_tcc (extractRelevantConstraints env tcc)) = [''SEC-001'']"
  using assms
  by (simp add: extractRelevantConstraints_def switch_taskType_def Set_spread_def)

lemma createTCC_taskType: "taskType (createTCC now' taskId' goal' taskType') = taskType'"
  by (simp add: createTCC_def validateTCCSize_def Let_def)

text \<open>
  Claim C3, as the code has it. When the global specification loads and the lookup
  \<^verbatim>\<open>spec?.metadata?.taskConstraints?.[taskType]\<close> finds no value (\<open>Absent\<close>: no property of
  that name, own or inherited, or a falsy one), and the upper-cased task type is none of
  FINANCIAL, AUTHENTICATION, API and DATABASE, every capsule that \<^verbatim>\<open>generateTCC\<close> returns
  has exactly SEC-001 as its relevant constraints.
\<close>

theorem default_relevant_constraints:
  assumes "toUpperCase env taskType' \<notin> {''FINANCIAL'', ''AUTHENTICATION'', ''API'', ''DATABASE''}"
    and "loadSpecification env ''src/core/specification/bsl.schema.json'' = Inr spec"
    and "taskConstraints spec taskType' = Absent"
    and "generateTCC env taskId' goal' taskType' source' priority' = Inr tcc"
  shows "relevantConstraints (context_tcc tcc) = [''SEC-001'']"
proof -
  let ?source = "case source' of None \<Rightarrow> ''user-request'' | Some s \<Rightarrow> s"
  let ?priority = "case priority' of None \<Rightarrow> PRIORITY_MEDIUM | Some p \<Rightarrow> p"
  let ?created = "createTCC (now env) taskId' goal' taskType'"
  let ?tcc1 = "?created\<lparr>context_tcc := (context_tcc ?created)\<lparr>source := ?source\<rparr>\<rparr>"
  let ?tcc2 = "?tcc1\<lparr>context_tcc := (context_tcc ?tcc1)\<lparr>priority := ?priority\<rparr>\<rparr>"
  let ?tcc3 = "extractRelevantConstraints env ?tcc2"
  have "taskType ?tcc2 = taskType'"
    by (simp add: createTCC_taskType)
  with assms(1-3) have extracted: "relevantConstraints (context_tcc ?tcc3) = [''SEC-001'']"
    using extractRelevantConstraints_default [of env ?tcc2 spec] by simp
  from assms(4) have "generateTCC_try env taskId' goal' taskType' ?source ?priority = Inr tcc"
    by (simp add: generateTCC_def split: sum.splits js_error.splits)
  then have "tcc = snd (validateTCCSize ?tcc3)"
    by (simp add: generateTCC_try_def Let_def split: prod.splits if_splits)
  with extracted show ?thesis
    by (simp add: validateTCCSize_def Let_def)
qed

theorem default_relevant_constraints_witness:
  "relevantConstraints (context_tcc
     \<lparr>taskId = ''T1'', goal = ''pay'', taskType = ''misc'',
      context_tcc = \<lparr>relevantConstraints = [''SEC-001''],
        systemState = \<lparr>loadLevel = MED, dependencies = [],
          resourceAvailability = \<lparr>cpu = 50, memory = 50, network = 50\<rparr>,
          environment = DEVELOPMENT\<rparr>,
        creationTime = ''2025-06-01T12:00:00.000Z'', source = ''user-request'',
        priority = PRIORITY_MEDIUM\<rparr>,
      size_tcc = 344, version = ''1.0''\<rparr>) = [''SEC-001'']
   \<and> generateTCC sample_env ''T1'' ''pay'' ''misc'' None None =
     Inr \<lparr>taskId = ''T1'', goal = ''pay'', taskType = ''misc'',
      context_tcc = \<lparr>relevantConstraints = [''SEC-001''],
        systemState = \<lparr>loadLevel = MED, dependencies = [],
          resourceAvailability = \<lparr>cpu = 50, memory = 50, network = 50\<rparr>,
          environment = DEVELOPMENT\<rparr>,
        creationTime = ''2025-06-01T12:00:00.000Z'', source = ''user-request'',
        priority = PRIORITY_MEDIUM\<rparr>,
      size_tcc = 344, version = ''1.0''\<rparr>"
proof -
  have upper: "toUpperCase sample_env ''misc'' \<notin> {''FINANCIAL'', ''AUTHENTICATION'', ''API'', ''DATABASE''}"
    by code_simp
  have loaded: "loadSpecification sample_env ''src/core/specification/bsl.schema.json'' =
      Inr specification_document"
    by (simp add: loadSpecification_def loadSpecification_try_def sample_env_def sample_files_def
        validateSpecification_def)
  have absent: "taskConstraints specification_document ''misc'' = Absent"
    by (simp add: specification_document_def)
  have generated: "generateTCC sample_env ''T1'' ''pay'' ''misc'' None None =
     Inr \<lparr>taskId = ''T1'', goal = ''pay'', taskType = ''misc'',
      context_tcc = \<lparr>relevantConstraints = [''SEC-001''],
        systemState = \<lparr>loadLevel = MED, dependencies = [],
          resourceAvailability = \<lparr>cpu = 50, memory = 50, network = 50\<rparr>,
          environment = DEVELOPMENT\<rparr>,
        creationTime = ''2025-06-01T12:00:00.000Z'', source = ''user-request'',
        priority = PRIORITY_MEDIUM\<rparr>,
      size_tcc = 344, version = ''1.0''\<rparr>"
    by code_simp
  from default_relevant_constraints [OF upper loaded absent generated] generated
  show ?thesis by simp
qed

text \<open>
  Claim C3, as it is stated, fails in three ways, each with a task type that is none of
  the four: where the global specification cannot be loaded the capsule returned has no
  relevant constraint; where the specification lists identifiers under the task type they
  are added to SEC-001; where the lookup finds a value that cannot be spread (the inherited
  \<^verbatim>\<open>constructor\<close>) the capsule returned has no relevant constraint either.
\<close>

theorem load_failure_leaves_no_constraints:
  "toUpperCase empty_env ''misc'' = ''MISC''
   \<and> generateTCC empty_env ''T1'' ''pay'' ''misc'' None None =
     Inr \<lparr>taskId = ''T1'', goal = ''pay'', taskType = ''misc'',
      context_tcc = \<lparr>relevantConstraints = [],
        systemState = \<lparr>loadLevel = MED, dependencies = [],
          resourceAvailability = \<lparr>cpu = 50, memory = 50, network = 50\<rparr>,
          environment = DEVELOPMENT\<rparr>,
        creationTime = ''2025-06-01T12:00:00.000Z'', source = ''user-request'',
        priority = PRIORITY_MEDIUM\<rparr>,
      size_tcc = 335, version = ''1.0''\<rparr>
   \<and> map_sum id (\<lambda>tcc. relevantConstraints (context_tcc tcc))
       (generateTCC table_env ''T1'' ''pay'' ''misc'' None None) = Inr [''SEC-001'', ''AUDIT-001'']
   \<and> toUpperCase table_env ''constructor'' = ''CONSTRUCTOR''
   \<and> map_sum id (\<lambda>tcc. relevantConstraints (context_tcc tcc))
       (generateTCC table_env ''T1'' ''pay'' ''constructor'' None None) = Inr []"
  by code_simp

section \<open>Constraint generation\<close>

lemma generateConstraints_matched:
  assumes "matchTemplates env (taskType tcc) = Inr templates"
  shows "generateConstraints env tcc =
           Inr (map constraint_of_template templates
                @ map (constraint_of_context tcc) (relevantConstraints (context_tcc tcc)))"
  using assms by (simp add: generateConstraints_def generateConstraints_try_def)

text \<open>
  Claim C8. When the template store answers, \<^verbatim>\<open>generateConstraints\<close> returns one
  constraint for each matched template, in order and with each of the seven fields copied,
  followed by one constraint for each entry of \<^verbatim>\<open>context.relevantConstraints\<close>, in order,
  with the entry as identifier and name, category OTHER, severity WARNING and the rule
  \<^verbatim>\<open>context.\<close> followed by the entry; nothing is merged or removed.
\<close>

theorem generateConstraints_concatenation:
  assumes "matchTemplates env (taskType tcc) = Inr templates"
  shows "\<exists>constraints'.
           generateConstraints env tcc = Inr constraints'
         \<and> length constraints' = length templates + length (relevantConstraints (context_tcc tcc))
         \<and> (\<forall>i < length templates.
               c_id (constraints' ! i) = t_id (templates ! i)
             \<and> c_name (constraints' ! i) = t_name (templates ! i)
             \<and> c_category (constraints' ! i) = t_category (templates ! i)
             \<and> c_description (constraints' ! i) = t_description (templates ! i)
             \<and> c_rule (constraints' ! i) = t_rule (templates ! i)
             \<and> c_applicableTasks (constraints' ! i) = t_applicableTasks (templates ! i)
             \<and> c_severity (constraints' ! i) = t_severity (templates ! i))
         \<and> (\<forall>j < length (relevantConstraints (context_tcc tcc)).
               c_id (constraints' ! (length templates + j)) = relevantConstraints (context_tcc tcc) ! j
             \<and> c_name (constraints' ! (length templates + j)) = relevantConstraints (context_tcc tcc) ! j
             \<and> c_category (constraints' ! (length templates + j)) = OTHER
             \<and> c_severity (constraints' ! (length templates + j)) = WARNING
             \<and> c_rule (constraints' ! (length templates + j)) =
                 ''context.'' @ relevantConstraints (context_tcc tcc) ! j
             \<and> c_description (constraints' ! (length templates + j)) = ''Constraint from task context''
             \<and> c_applicableTasks (constraints' ! (length templates + j)) = [taskType tcc])"
proof -
  let ?ids = "relevantConstraints (context_tcc tcc)"
  let ?cs = "map constraint_of_template templates @ map (constraint_of_context tcc) ?ids"
  have gen: "generateConstraints env tcc = Inr ?cs"
    using assms by (rule generateConstraints_matched)
  have len: "length ?cs = length templates + length ?ids"
    by simp
  have copies: "\<forall>i < length templates.
               c_id (?cs ! i) = t_id (templates ! i)
             \<and> c_name (?cs ! i) = t_name (templates ! i)
             \<and> c_category (?cs ! i) = t_category (templates ! i)
             \<and> c_description (?cs ! i) = t_description (templates ! i)
             \<and> c_rule (?cs ! i) = t_rule (templates ! i)
             \<and> c_applicableTasks (?cs ! i) = t_applicableTasks (templates ! i)
             \<and> c_severity (?cs ! i) = t_severity (templates ! i)"
    by (simp add: nth_append constraint_of_template_def)
  have synthesized: "\<forall>j < length ?ids.
               c_id (?cs ! (length templates + j)) = ?ids ! j
             \<and> c_name (?cs ! (length templates + j)) = ?ids ! j
             \<and> c_category (?cs ! (length templates + j)) = OTHER
             \<and> c_severity (?cs ! (length templates + j)) = WARNING
             \<and> c_rule (?cs ! (length templates + j)) = ''context.'' @ ?ids ! j
             \<and> c_description (?cs ! (length templates + j)) = ''Constraint from task context''
             \<and> c_applicableTasks (?cs ! (length templates + j)) = [taskType tcc]"
    by (simp add: nth_append constraint_of_context_def)
  from gen len copies synthesized show ?thesis
    by blast
qed

theorem generateConstraints_concatenation_witness:
  "\<exists>cs. generateConstraints sample_env sample_capsule = Inr cs
      \<and> length cs = 2
      \<and> c_id (cs ! 0) = ''SEC-001'' \<and> c_category (cs ! 0) = SECURITY \<and> c_severity (cs ! 0) = ERROR
      \<and> c_id (cs ! 1) = ''InputValidation@PaymentService''
      \<and> c_category (cs ! 1) = OTHER \<and> c_severity (cs ! 1) = WARNING
      \<and> c_rule (cs ! 1) = ''context.InputValidation@PaymentService''"
proof -
  have matched: "matchTemplates sample_env (taskType sample_capsule) = Inr [sec001]"
    by code_simp
  have ids: "relevantConstraints (context_tcc sample_capsule) = [''InputValidation@PaymentService'']"
    by (simp add: sample_capsule_def)
  from generateConstraints_concatenation [OF matched] ids show ?thesis
    by (auto simp: sec001_def)
qed

section \<open>The template store\<close>







text \<open>
  A candidate record that cannot be read or parsed ends the scan of its partition: the
  templates found so far are kept, the records after it are not looked at.
\<close>

lemma for_files_stops_at_unreadable:
  assumes "endsWith f ''.json''" and "stored_template env dir f = None"
  shows "snd (for_files env taskType' dir (f # fs) templates) = templates"
  using assms
  by (auto simp: stored_template_def split: sum.splits)

end
